theory Spec2Isabelle
  imports Main "HOL-Library.Sublist"
begin

section \<open>Values shared by the skill dialog and the transport\<close>

text \<open>
  A JavaScript \<open>Error\<close> carries a message; every \<open>throw new Error(m)\<close> of the
  source is the value \<open>Error m\<close>, and a function that may throw returns
  \<open>error + 'a\<close> with \<open>Inl\<close> for the thrown error.
\<close>

datatype error = Error string

text \<open>
  \<open>SemanticAction\<close>: \<open>{ id, entities, state }\<close>. The entities object is a
  dictionary from property name to an opaque value of type \<open>'v\<close>.
\<close>

record 'v semantic_action =
  sa_id :: string
  entities :: "string \<rightharpoonup> 'v"
  state :: string

text \<open>
  The fields of \<open>Activity\<close> that the two source files read or write. An optional
  field that is \<open>undefined\<close> is \<open>None\<close>; \<open>recipient\<close> holds \<open>recipient.id\<close>,
  \<open>atype\<close> and \<open>atext\<close> are the fields \<open>type\<close> and \<open>text\<close>.
\<close>

record 'v activity =
  atype :: string
  name :: "string option"
  atext :: "string option"
  speak :: "string option"
  recipient :: "string option"
  semanticAction :: "'v semantic_action option"

text \<open>\<open>ISlot\<close>, \<open>IAction\<close> (with \<open>definition.slots\<close>) and \<open>ISkillManifest\<close>.\<close>

record slot =
  slot_name :: string
  slot_type :: string

record action =
  action_id :: string
  slots :: "slot list"

record skill_manifest =
  manifest_id :: string
  manifest_name :: string
  endpoint :: string
  msaAppId :: string
  actions :: "action list"

text \<open>
  Modelled from the spec: the class \<open>SkillContext\<close> (\<open>./skillContext\<close>) is not among
  the sources. The spec describes it as a mutable mapping from slot name to an
  opaque value; \<open>getObj\<close> is the lookup (\<open>undefined\<close> is \<open>None\<close>) and \<open>setObj\<close> the
  update.
\<close>

type_synonym 'v skill_context = "string \<rightharpoonup> 'v"

definition getObj :: "'v skill_context \<Rightarrow> string \<Rightarrow> 'v option" where
  "getObj c k = c k"

definition setObj :: "'v skill_context \<Rightarrow> string \<Rightarrow> 'v \<Rightarrow> 'v skill_context" where
  "setObj c k v = c(k \<mapsto> v)"

text \<open>
  Modelled from the spec: the constants of \<open>SkillEvents\<close> (\<open>./models\<close>) and of
  \<open>skillConstants\<close> (\<open>./skillConstants\<close>) are not among the sources; the spec names
  the events cancel-all-skill-dialogs, fallback-request and fallback-handled and
  the state skill-start.
\<close>

definition cancelAllSkillDialogsEventName :: string where
  "cancelAllSkillDialogsEventName = ''cancel-all-skill-dialogs''"

definition fallbackEventName :: string where
  "fallbackEventName = ''fallback-request''"

definition fallbackHandledEventName :: string where
  "fallbackHandledEventName = ''fallback-handled''"

definition skillStart :: string where
  "skillStart = ''skill-start''"

definition Event :: string where
  "Event = ''event''"

section \<open>skillWebSocketTransport.ts\<close>

subsection \<open>ensureWebSocketUrl\<close>

text \<open>
  \<open>String.prototype.replace\<close> with a string pattern replaces the first occurrence
  of the pattern, scanning from the left; the replacements used here contain no
  \<open>$\<close> and so are inserted literally. \<open>startsWith\<close> is \<open>prefix\<close>.
\<close>

fun replace :: "string \<Rightarrow> string \<Rightarrow> string \<Rightarrow> string" where
  "replace [] pat rep = (if pat = [] then rep else [])"
| "replace (c # cs) pat rep =
     (if prefix pat (c # cs) then rep @ drop (length pat) (c # cs)
      else c # replace cs pat rep)"

definition httpPrefix :: string where "httpPrefix = ''http://''"
definition httpsPrefix :: string where "httpsPrefix = ''https://''"
definition wsPrefix :: string where "wsPrefix = ''ws://''"
definition wssPrefix :: string where "wssPrefix = ''wss://''"

definition ensureWebSocketUrl :: "string \<Rightarrow> error + string" where
  "ensureWebSocketUrl url =
     (if url = [] then Inl (Error ''url is empty!'')
      else if prefix httpPrefix url then Inr (replace url httpPrefix wsPrefix)
      else if prefix httpsPrefix url then Inr (replace url httpsPrefix wssPrefix)
      else Inr url)"

subsection \<open>forwardToSkill, cancelRemoteDialogs, disconnect\<close>

text \<open>
  What the network does during one call is an input of the model: the result of
  \<open>getToken\<close>, of \<open>connectAsync\<close> and of \<open>sendAsync\<close>. A send either throws or
  completes; while it is in flight the skill may deliver a handoff activity to the
  request handler, which is the \<open>Some h\<close> of a completed send.
\<close>

record 'v network =
  getToken :: "error + string"
  connectAsync :: "error + unit"
  sendAsync :: "'v activity \<Rightarrow> error + 'v activity option"

text \<open>
  The streaming client is either the one handed to the constructor or the one
  \<open>forwardToSkill\<close> creates for a URL; only the created one carries the request
  handler with the handoff callback.
\<close>

datatype streaming_client = Injected | Created string

record 'v web_socket_transport =
  streamingTransportClient :: "streaming_client option"
  connected :: bool
  handoffActivity :: "'v activity option"

definition establishClient ::
  "skill_manifest \<Rightarrow> 'v web_socket_transport \<Rightarrow> error + 'v web_socket_transport" where
  "establishClient m t =
     (if streamingTransportClient t = None
      then (case ensureWebSocketUrl (endpoint m) of
              Inl e \<Rightarrow> Inl e
            | Inr url \<Rightarrow> Inr (t\<lparr>streamingTransportClient := Some (Created url)\<rparr>))
      else Inr t)"

text \<open>
  The send: the recipient id is the skill's application id in the serialized body
  only, and is set back before the send. A failing send is rethrown as
  \<open>Callback failed\<close>. The handoff callback stores the activity it receives.
\<close>

definition sendToSkill ::
  "'v network \<Rightarrow> skill_manifest \<Rightarrow> 'v activity \<Rightarrow> 'v web_socket_transport
     \<Rightarrow> error + 'v web_socket_transport" where
  "sendToSkill net m a t =
     (if recipient a \<noteq> None
      then (case sendAsync net (a\<lparr>recipient := Some (msaAppId m)\<rparr>) of
              Inl e \<Rightarrow> Inl (Error ''Callback failed'')
            | Inr None \<Rightarrow> Inr t
            | Inr (Some h) \<Rightarrow>
                (case streamingTransportClient t of
                   Some (Created url) \<Rightarrow> Inr (t\<lparr>handoffActivity := Some h\<rparr>)
                 | _ \<Rightarrow> Inr t))
      else Inr t)"

definition ws_forwardToSkill ::
  "'v network \<Rightarrow> skill_manifest \<Rightarrow> 'v activity \<Rightarrow> 'v web_socket_transport
     \<Rightarrow> (error + 'v activity) \<times> 'v web_socket_transport" where
  "ws_forwardToSkill net m a t =
     (case establishClient m t of
        Inl e \<Rightarrow> (Inl e, t)
      | Inr t1 \<Rightarrow>
          (case getToken net of
             Inl e \<Rightarrow> (Inl e, t1)
           | Inr token \<Rightarrow>
               (case connectAsync net of
                  Inl e \<Rightarrow> (Inl e, t1)
                | Inr u \<Rightarrow>
                    (case sendToSkill net m a (t1\<lparr>connected := True\<rparr>) of
                       Inl e \<Rightarrow> (Inl e, t1\<lparr>connected := True\<rparr>)
                     | Inr t2 \<Rightarrow>
                         (case handoffActivity t2 of
                            None \<Rightarrow> (Inl (Error ''handoffActivity value is Undefined''), t2)
                          | Some h \<Rightarrow> (Inr h, t2))))))"

text \<open>
  \<open>ActivityExtensions.createReply\<close> belongs to another package and is a parameter.
\<close>

definition ws_cancelRemoteDialogs ::
  "('v activity \<Rightarrow> 'v activity) \<Rightarrow> 'v network \<Rightarrow> skill_manifest \<Rightarrow> 'v activity
     \<Rightarrow> 'v web_socket_transport \<Rightarrow> (error + unit) \<times> 'v web_socket_transport" where
  "ws_cancelRemoteDialogs createReply net m turnActivity t =
     (let cancelRemoteDialogEvent =
            (createReply turnActivity)\<lparr>atype := Event, name := Some cancelAllSkillDialogsEventName\<rparr>
      in case ws_forwardToSkill net m cancelRemoteDialogEvent t of
           (Inl e, t') \<Rightarrow> (Inl e, t')
         | (Inr h, t') \<Rightarrow> (Inr (), t'))"

definition ws_disconnect :: "'v web_socket_transport \<Rightarrow> 'v web_socket_transport" where
  "ws_disconnect t = (if streamingTransportClient t \<noteq> None then t\<lparr>connected := False\<rparr> else t)"

section \<open>skillDialog.ts: slot matching\<close>

text \<open>
  \<open>matchSkillContextToSlots\<close>: every callback of the \<open>forEach\<close> runs up to its first
  \<open>await\<close> before the next one starts, so the \<open>setObj\<close> calls and the calls of
  \<open>sendActivity\<close> happen in slot order. The result pairs the new \<open>SkillContext\<close>
  with the texts of the trace activities sent.
\<close>

definition matchedTrace :: "string \<Rightarrow> string" where
  "matchedTrace n = ''-->Matched the '' @ n @ '' slot within SkillContext and passing to the Skill.''"

definition matchSlot ::
  "'v skill_context \<Rightarrow> 'v skill_context \<times> string list \<Rightarrow> slot \<Rightarrow> 'v skill_context \<times> string list" where
  "matchSlot skillContext acc s =
     (case getObj skillContext (slot_name s) of
        None \<Rightarrow> acc
      | Some v \<Rightarrow> (setObj (fst acc) (slot_name s) v, snd acc @ [matchedTrace (slot_name s)]))"

definition matchSkillContextToSlots ::
  "slot list \<Rightarrow> 'v skill_context \<Rightarrow> 'v skill_context \<times> string list" where
  "matchSkillContextToSlots actionSlots skillContext =
     (if length actionSlots > 0
      then foldl (matchSlot skillContext) (Map.empty, []) actionSlots
      else (Map.empty, []))"

text \<open>
  The \<open>reduce\<close> of \<open>onBeginDialog\<close> that collects the slots of all actions: a slot of
  the current action is kept when no slot already accumulated has its name.
\<close>

definition distinctSlots :: "slot list \<Rightarrow> action \<Rightarrow> slot list" where
  "distinctSlots acc cur =
     acc @ filter (\<lambda>s. find (\<lambda>item. slot_name item = slot_name s) acc = None) (slots cur)"

definition skillSlots :: "action list \<Rightarrow> slot list" where
  "skillSlots acts = foldl distinctSlots [] acts"




section \<open>skillDialog.ts: the dialog\<close>

subsection \<open>State, results and collaborators\<close>

text \<open>
  \<open>ISkillTransport\<close> as the dialog sees it, over a transport state \<open>'t\<close>. A call of
  \<open>forwardToSkill\<close> throws, or returns the handoff activity (\<open>undefined\<close> is \<open>None\<close>).
  With that it returns what happened while the call was in flight: the events
  that the callbacks pushed onto \<open>queuedResponses\<close>, oldest first, and the
  activities of the fallback requests that the skill raised, which the transport
  has for the fallback handler it was given.
\<close>

record ('v, 't) skill_transport =
  tForwardToSkill ::
    "'v activity \<Rightarrow> 't
       \<Rightarrow> (error + 'v activity option) \<times> 'v activity list \<times> 'v activity list \<times> 't"
  tCancelRemoteDialogs :: "'v activity \<Rightarrow> 't \<Rightarrow> (error + unit) \<times> 't"
  tDisconnect :: "'t \<Rightarrow> 't"

text \<open>The transport of \<open>skillWebSocketTransport.ts\<close> behind that interface.\<close>

definition webSocketTransport ::
  "('v activity \<Rightarrow> 'v activity) \<Rightarrow> 'v network \<Rightarrow> skill_manifest
     \<Rightarrow> ('v, 'v web_socket_transport) skill_transport" where
  "webSocketTransport createReply net m =
     \<lparr>tForwardToSkill = (\<lambda>a t. case ws_forwardToSkill net m a t of
                                  (Inl e, t') \<Rightarrow> (Inl e, [], [], t')
                                | (Inr h, t') \<Rightarrow> (Inr (Some h), [], [], t')),
      tCancelRemoteDialogs = ws_cancelRemoteDialogs createReply net m,
      tDisconnect = ws_disconnect\<rparr>"

text \<open>
  \<open>ISkillIntentRecognizer\<close>: the optional function \<open>recognizeSkillIntentAsync\<close>
  (its result may be \<open>undefined\<close>) and the flag \<open>confirmIntentSwitch\<close>.
\<close>

record 'v skill_intent_recognizer =
  recognizeSkillIntentAsync :: "('v activity \<Rightarrow> string option) option"
  recognizerConfirmIntentSwitch :: bool

record ('v, 't) skill_dialog =
  skillManifest :: skill_manifest
  skillTransport :: "('v, 't) skill_transport"
  skillIntentRecognizer :: "'v skill_intent_recognizer option"
  authDialog :: "string option"

datatype dialog_turn_status = Empty | Waiting | Complete | Cancelled

datatype dialog_reason =
  beginCalled | continueCalled | endCalled | replaceCalled | cancelCalled | nextCalled

text \<open>
  The values that travel in \<open>DialogTurnResult.result\<close>: nothing, the entities of a
  handoff, or the id of the recognized skill.
\<close>

datatype 'v turn_value =
    Undefined
  | Entities "string \<rightharpoonup> 'v"
  | SkillId string

record 'v dialog_turn_result =
  status :: dialog_turn_status
  result :: "'v turn_value"

record 'v skill_switch_confirm_option =
  fallbackHandledEvent :: "'v activity"
  targetIntent :: string
  userInputActivity :: "'v activity"

text \<open>
  The mutable part: the turn's activity (\<open>innerDc.context.activity\<close>), the texts of
  the trace activities and of the prompts sent to the host surface, the
  activities handed to \<open>skillTransport.forwardToSkill\<close> in order, the field
  \<open>queuedResponses\<close>, the transport's state, the id of the active inner dialog with
  the options of the confirm flow, whether \<open>innerDc.endDialog\<close> has run, and whether
  the component's own \<open>endDialog\<close> has torn the invocation down.
\<close>

record ('v, 't) dialog_context =
  turnActivity :: "'v activity"
  traces :: "string list"
  prompts :: "string list"
  sentToSkill :: "'v activity list"
  queuedResponses :: "'v activity list"
  transport :: 't
  activeDialog :: "string option"
  stepOptions :: "'v skill_switch_confirm_option option"
  ended :: bool
  tornDown :: bool

type_synonym ('v, 't) outcome =
  "((error + 'v dialog_turn_result) \<times> ('v, 't) dialog_context) option"

definition confirmSkillSwitchPrompt :: string where
  "confirmSkillSwitchPrompt = ''confirmSkillSwitchPrompt''"

definition confirmSkillSwitchFlow :: string where
  "confirmSkillSwitchFlow = ''confirmSkillSwitchFlow''"

definition sendTrace :: "string \<Rightarrow> ('v, 't) dialog_context \<Rightarrow> ('v, 't) dialog_context" where
  "sendTrace t s = s\<lparr>traces := traces s @ [t]\<rparr>"

text \<open>
  \<open>innerDc.endDialog(result)\<close> of the dialog framework: the active inner dialog is
  popped and the turn result is complete with the value given.
\<close>

definition dcEndDialog ::
  "'v turn_value \<Rightarrow> ('v, 't) dialog_context \<Rightarrow> 'v dialog_turn_result \<times> ('v, 't) dialog_context" where
  "dcEndDialog v s = (\<lparr>status = Complete, result = v\<rparr>, s\<lparr>activeDialog := None, ended := True\<rparr>)"

subsection \<open>confirmIntentSwitch and the fallback callback\<close>

text \<open>
  \<open>confirmIntentSwitch\<close>, the first step of the confirm flow: with options it
  prompts and the turn waits on the confirm prompt (\<open>Inl\<close>); without options it
  goes on to the next step (\<open>Inr\<close>).
\<close>

definition confirmIntentSwitch ::
  "('v, 't) dialog_context
     \<Rightarrow> ('v dialog_turn_result \<times> ('v, 't) dialog_context) + ('v, 't) dialog_context" where
  "confirmIntentSwitch s =
     (case stepOptions s of
        Some confirmOptions \<Rightarrow>
          Inl (\<lparr>status = Waiting, result = Undefined\<rparr>,
               s\<lparr>prompts := prompts s @ [''Are you sure to switch to '' @ targetIntent confirmOptions @ ''?''],
                 activeDialog := Some confirmSkillSwitchPrompt\<rparr>)
      | None \<Rightarrow> Inr s)"

text \<open>
  \<open>innerDc.beginDialog(DialogIds.confirmSkillSwitchFlow, options)\<close>: the waterfall
  starts with the options and runs its first step. Were the options missing, the
  second step would only end the flow (its last line).
\<close>

definition beginConfirmSkillSwitchFlow ::
  "'v skill_switch_confirm_option \<Rightarrow> ('v, 't) dialog_context
     \<Rightarrow> 'v dialog_turn_result \<times> ('v, 't) dialog_context" where
  "beginConfirmSkillSwitchFlow options s =
     (case confirmIntentSwitch (s\<lparr>stepOptions := Some options, activeDialog := Some confirmSkillSwitchFlow\<rparr>) of
        Inl r \<Rightarrow> r
      | Inr s' \<Rightarrow> dcEndDialog Undefined s')"

text \<open>
  \<open>getFallbackCallback\<close>: the handler traces, builds the fallback event from a
  reply to the activity it is given and pushes it onto \<open>queuedResponses\<close>.
\<close>

definition getFallbackCallback ::
  "('v activity \<Rightarrow> 'v activity) \<Rightarrow> 'v activity \<Rightarrow> ('v, 't) dialog_context \<Rightarrow> ('v, 't) dialog_context" where
  "getFallbackCallback createReply a s =
     (let s1 = sendTrace ''<--Received a fallback request from a skill'' s;
          fallbackEvent = (createReply a)\<lparr>atype := Event, name := Some fallbackEventName\<rparr>
      in s1\<lparr>queuedResponses := queuedResponses s1 @ [fallbackEvent]\<rparr>)"

subsection \<open>forwardToSkill\<close>

text \<open>
  \<open>lastEvent === SkillEvents.fallbackEventName\<close> compares what \<open>pop\<close> returned, an
  activity object or \<open>undefined\<close>, with a string. Strict equality with a string
  holds for an equal string only.
\<close>

datatype 'v js_value = JsUndefined | JsString string | JsActivity "'v activity"

fun strictEqualsString :: "'v js_value \<Rightarrow> string \<Rightarrow> bool" where
  "strictEqualsString (JsString a) b = (a = b)"
| "strictEqualsString v b = False"

text \<open>
  The block of the loop guarded by that comparison. It yields the event to send
  on, renamed inside the block, and the early return of the block when it has
  one: the confirm flow begun, or the invocation ended with the recognized skill
  id after \<open>cancelRemoteDialogs\<close>.
\<close>

definition handleFallbackEvent ::
  "('v, 't) skill_dialog \<Rightarrow> 'v activity \<Rightarrow> ('v, 't) dialog_context
     \<Rightarrow> 'v activity \<times> ((error + 'v dialog_turn_result) \<times> ('v, 't) dialog_context) option" where
  "handleFallbackEvent D lastEvent s =
     (if strictEqualsString (JsActivity lastEvent) fallbackEventName then
        (let handled = lastEvent\<lparr>name := Some fallbackHandledEventName\<rparr> in
         case skillIntentRecognizer D of
           None \<Rightarrow> (handled, None)
         | Some recognizer \<Rightarrow>
             (case recognizeSkillIntentAsync recognizer of
                None \<Rightarrow> (handled, None)
              | Some recognize \<Rightarrow>
                  (case recognize (turnActivity s) of
                     None \<Rightarrow> (handled, None)
                   | Some recognizedSkillManifest \<Rightarrow>
                       (if recognizedSkillManifest \<noteq> manifest_id (skillManifest D) then
                          (if recognizerConfirmIntentSwitch recognizer then
                             (case beginConfirmSkillSwitchFlow
                                     \<lparr>fallbackHandledEvent = handled,
                                      targetIntent = recognizedSkillManifest,
                                      userInputActivity = turnActivity s\<rparr> s of
                                (r, s') \<Rightarrow> (handled, Some (Inr r, s')))
                           else
                             (case tCancelRemoteDialogs (skillTransport D) (turnActivity s) (transport s) of
                                (Inl e, t) \<Rightarrow> (handled, Some (Inl e, s\<lparr>transport := t\<rparr>))
                              | (Inr u, t) \<Rightarrow>
                                  (case dcEndDialog (SkillId recognizedSkillManifest) (s\<lparr>transport := t\<rparr>) of
                                     (r, s') \<Rightarrow> (handled, Some (Inr r, s')))))
                        else (handled, None)))))
      else (lastEvent, None))"

text \<open>
  The \<open>catch\<close> of \<open>forwardToSkill\<close>: an error ends the inner dialog and is thrown
  again.
\<close>

definition catchAndEnd :: "('v, 't) outcome \<Rightarrow> ('v, 't) outcome" where
  "catchAndEnd r =
     (case r of
        Some (Inl e, s) \<Rightarrow> Some (Inl e, snd (dcEndDialog Undefined s))
      | other \<Rightarrow> other)"

definition handoffResult :: "'v activity \<Rightarrow> 'v turn_value" where
  "handoffResult handoff =
     (case semanticAction handoff of
        Some sa \<Rightarrow> Entities (entities sa)
      | None \<Rightarrow> Undefined)"

text \<open>
  The call of \<open>skillTransport.forwardToSkill\<close> has five arguments, the last one
  the token request callback. The sixth parameter of the transport, the fallback
  handler, gets no argument: the transport has \<open>undefined\<close> for it, and
  \<open>getFallbackCallback\<close> is called nowhere.
\<close>

definition fallbackHandlerPassed ::
  "('v activity \<Rightarrow> ('v, 't) dialog_context \<Rightarrow> ('v, 't) dialog_context) option" where
  "fallbackHandlerPassed = None"

text \<open>
  What the fallback requests raised during a call do to the dialog: each goes to
  the handler that the transport was given, and without a handler none of them
  reaches the dialog.
\<close>

definition deliverFallbackRequests ::
  "('v activity \<Rightarrow> ('v, 't) dialog_context \<Rightarrow> ('v, 't) dialog_context) option
     \<Rightarrow> 'v activity list \<Rightarrow> ('v, 't) dialog_context \<Rightarrow> ('v, 't) dialog_context" where
  "deliverFallbackRequests handler requests s =
     (case handler of
        None \<Rightarrow> s
      | Some h \<Rightarrow> foldl (\<lambda>s' a. h a s') s requests)"

text \<open>
  \<open>forwardToSkill\<close> and its \<open>while\<close> loop over \<open>queuedResponses\<close>. The loop calls
  \<open>forwardToSkill\<close> again for every event it pops and a call may queue further
  events, so nothing bounds the recursion: the first argument is fuel, and running
  out of it is \<open>None\<close>.
\<close>

fun forwardToSkill ::
  "nat \<Rightarrow> ('v, 't) skill_dialog \<Rightarrow> 'v activity \<Rightarrow> ('v, 't) dialog_context \<Rightarrow> ('v, 't) outcome"
and drainQueuedResponses ::
  "nat \<Rightarrow> ('v, 't) skill_dialog \<Rightarrow> 'v dialog_turn_result \<Rightarrow> ('v, 't) dialog_context \<Rightarrow> ('v, 't) outcome"
where
  "forwardToSkill 0 D a s = None"
| "forwardToSkill (Suc n) D a s =
     (case tForwardToSkill (skillTransport D) a (transport s) of
        (r, pushed, raised, t) \<Rightarrow>
          (let s1 = deliverFallbackRequests fallbackHandlerPassed raised
                      (s\<lparr>sentToSkill := sentToSkill s @ [a],
                         queuedResponses := queuedResponses s @ pushed,
                         transport := t\<rparr>)
           in case r of
                Inl e \<Rightarrow> catchAndEnd (Some (Inl e, s1))
              | Inr (Some handoff) \<Rightarrow>
                  (case dcEndDialog (handoffResult handoff)
                          (sendTrace (''<--Ending the skill conversation with the ''
                                        @ manifest_name (skillManifest D)
                                        @ '' Skill and handing off to Parent Bot.'') s1) of
                     (res, s2) \<Rightarrow> Some (Inr res, s2))
              | Inr None \<Rightarrow>
                  catchAndEnd (drainQueuedResponses n D \<lparr>status = Waiting, result = Undefined\<rparr> s1)))"
| "drainQueuedResponses 0 D dialogResult s = None"
| "drainQueuedResponses (Suc n) D dialogResult s =
     (if length (queuedResponses s) > 0 then
        (let lastEvent = last (queuedResponses s);
             s1 = s\<lparr>queuedResponses := butlast (queuedResponses s)\<rparr>
         in case handleFallbackEvent D lastEvent s1 of
              (ev, Some early) \<Rightarrow> Some early
            | (ev, None) \<Rightarrow>
                (case forwardToSkill n D ev s1 of
                   None \<Rightarrow> None
                 | Some (Inl e, s2) \<Rightarrow> Some (Inl e, s2)
                 | Some (Inr dialogResult', s2) \<Rightarrow> drainQueuedResponses n D dialogResult' s2))
      else Some (Inr dialogResult, s))"

subsection \<open>endDialog\<close>

text \<open>
  \<open>endDialog(context, instance, reason)\<close>. The constructor always sets
  \<open>skillTransport\<close>, so the test for it holds. \<open>super.endDialog\<close> tears the
  invocation down.
\<close>

definition endDialog ::
  "('v, 't) skill_dialog \<Rightarrow> dialog_reason \<Rightarrow> ('v, 't) dialog_context
     \<Rightarrow> (error + unit) \<times> ('v, 't) dialog_context" where
  "endDialog D reason s =
     (case (if reason = cancelCalled
            then (case tCancelRemoteDialogs (skillTransport D) (turnActivity s) (transport s) of
                    (Inl e, t) \<Rightarrow> (Inl e, s\<lparr>transport := t\<rparr>)
                  | (Inr u, t) \<Rightarrow> (Inr (), s\<lparr>transport := t\<rparr>))
            else (Inr (), s)) of
        (Inl e, s1) \<Rightarrow> (Inl e, s1)
      | (Inr u, s1) \<Rightarrow> (Inr (), s1\<lparr>activeDialog := None, tornDown := True\<rparr>))"

subsection \<open>onBeginDialog\<close>

definition actionNotFound :: "string \<Rightarrow> string \<Rightarrow> error" where
  "actionNotFound actionName skillId =
     Error (''Passed Action ('' @ actionName @ '') could not be found within the ''
            @ skillId @ '' skill manifest action definition.'')"

text \<open>
  The body of \<open>if (activity.semanticAction !== undefined)\<close> up to the assignment of
  the payload: the payload, the local \<open>slots\<close> and the traces of the matching, or
  the error thrown. The callback handed to \<open>slots.forEachObj\<close> is
  \<open>(value, index) => semanticAction.entities.push\<close>: it reads a property and
  calls nothing, so the entities of the payload stay the empty object they were
  created as.
\<close>

definition buildSemanticAction ::
  "skill_manifest \<Rightarrow> string \<Rightarrow> 'v skill_context
     \<Rightarrow> error + ('v semantic_action \<times> 'v skill_context \<times> string list)" where
  "buildSemanticAction m actionName skillContext =
     (let semanticAction = \<lparr>sa_id = actionName, entities = Map.empty, state = []\<rparr> in
      if actionName \<noteq> [] then
        (case find (\<lambda>item. action_id item = actionName) (actions m) of
           Some action \<Rightarrow>
             (if length (slots action) > 0
              then (case matchSkillContextToSlots (slots action) skillContext of
                      (slots', tr) \<Rightarrow> Inr (semanticAction\<lparr>state := skillStart\<rparr>, slots', tr))
              else Inr (semanticAction\<lparr>state := skillStart\<rparr>, Map.empty, []))
         | None \<Rightarrow> Inl (actionNotFound actionName (manifest_id m)))
      else
        (case matchSkillContextToSlots (skillSlots (actions m)) skillContext of
           (slots', tr) \<Rightarrow> Inr (semanticAction, slots', tr)))"

text \<open>
  \<open>onBeginDialog(innerDC, options)\<close>; \<open>options\<close> is the action of the dialog options,
  \<open>None\<close> when no options are passed, and \<open>skillContext\<close> is what the state accessor
  returns.
\<close>

definition onBeginDialog ::
  "nat \<Rightarrow> ('v, 't) skill_dialog \<Rightarrow> string option \<Rightarrow> 'v skill_context
     \<Rightarrow> ('v, 't) dialog_context \<Rightarrow> ('v, 't) outcome" where
  "onBeginDialog n D options skillContext s =
     (let actionName = (case options of Some a \<Rightarrow> a | None \<Rightarrow> []);
          activity = turnActivity s
      in case (if semanticAction activity \<noteq> None
               then (case buildSemanticAction (skillManifest D) actionName skillContext of
                       Inl e \<Rightarrow> Inl e
                     | Inr (sa, slots', tr) \<Rightarrow>
                         Inr (s\<lparr>turnActivity := activity\<lparr>semanticAction := Some sa\<rparr>,
                                traces := traces s @ tr\<rparr>))
               else Inr s) of
           Inl e \<Rightarrow> Some (Inl e, s)
         | Inr s1 \<Rightarrow>
             (let s2 = sendTrace (''-->Handing off to the '' @ manifest_name (skillManifest D) @ '' skill.'') s1
              in case forwardToSkill n D (turnActivity s2) s2 of
                   None \<Rightarrow> None
                 | Some (Inl e, s3) \<Rightarrow> Some (Inl e, s3)
                 | Some (Inr dialogResult, s3) \<Rightarrow>
                     Some (Inr dialogResult,
                           s3\<lparr>transport := tDisconnect (skillTransport D) (transport s3)\<rparr>)))"

section \<open>Concrete inputs\<close>

text \<open>
  The manifest and the SkillContext of the spec's scenario, a user message with
  and without a semantic action, and transports over which the dialog is run:
  one whose skill never hands off and that counts the calls of
  \<open>cancelRemoteDialogs\<close>, one whose skill hands off at once, one whose skill raises
  a fallback request during every call, and the web socket transport on a
  network whose sends fail.
\<close>

definition dateSlot :: slot where
  "dateSlot = \<lparr>slot_name = ''date'', slot_type = ''string''\<rparr>"

definition createEvent :: action where
  "createEvent = \<lparr>action_id = ''createEvent'', slots = [dateSlot]\<rparr>"

definition calendarManifest :: skill_manifest where
  "calendarManifest =
     \<lparr>manifest_id = ''calendar'', manifest_name = ''Calendar'',
      endpoint = ''http://host/x'', msaAppId = ''calendar-app'',
      actions = [createEvent]\<rparr>"

definition calendarContext :: "string skill_context" where
  "calendarContext = [''date'' \<mapsto> ''tomorrow'', ''unrelated'' \<mapsto> ''x'']"

definition userMessage :: "string activity" where
  "userMessage =
     \<lparr>atype = ''message'', name = None, atext = Some ''book a meeting'', speak = None,
      recipient = Some ''bot'', semanticAction = None\<rparr>"

definition blankSemanticAction :: "string semantic_action" where
  "blankSemanticAction = \<lparr>sa_id = [], entities = Map.empty, state = []\<rparr>"

definition taggedMessage :: "string activity" where
  "taggedMessage = userMessage\<lparr>semanticAction := Some blankSemanticAction\<rparr>"

definition replyTo :: "string activity \<Rightarrow> string activity" where
  "replyTo a = a\<lparr>atext := None, speak := None, semanticAction := None\<rparr>"

definition parkedForward ::
  "string activity \<Rightarrow> nat
     \<Rightarrow> (error + string activity option) \<times> string activity list \<times> string activity list \<times> nat" where
  "parkedForward a t = (Inr None, [], [], t)"

definition countedCancel :: "string activity \<Rightarrow> nat \<Rightarrow> (error + unit) \<times> nat" where
  "countedCancel a t = (Inr (), Suc t)"

definition keepState :: "nat \<Rightarrow> nat" where
  "keepState t = t"

definition parkedTransport :: "(string, nat) skill_transport" where
  "parkedTransport =
     \<lparr>tForwardToSkill = parkedForward, tCancelRemoteDialogs = countedCancel, tDisconnect = keepState\<rparr>"

definition calendarDialog :: "(string, nat) skill_dialog" where
  "calendarDialog =
     \<lparr>skillManifest = calendarManifest, skillTransport = parkedTransport,
      skillIntentRecognizer = None, authDialog = None\<rparr>"

definition idleContext :: "(string, nat) dialog_context" where
  "idleContext =
     \<lparr>turnActivity = userMessage, traces = [], prompts = [], sentToSkill = [],
      queuedResponses = [], transport = 0, activeDialog = None, stepOptions = None,
      ended = False, tornDown = False\<rparr>"

definition handoffActivityWithEntities :: "string activity" where
  "handoffActivityWithEntities =
     \<lparr>atype = ''event'', name = Some ''handoff'', atext = None, speak = None,
      recipient = Some ''bot'',
      semanticAction = Some \<lparr>sa_id = ''createEvent'', entities = [''date'' \<mapsto> ''tomorrow''],
                              state = ''done''\<rparr>\<rparr>"

definition handingOffForward ::
  "string activity \<Rightarrow> nat
     \<Rightarrow> (error + string activity option) \<times> string activity list \<times> string activity list \<times> nat" where
  "handingOffForward a t = (Inr (Some handoffActivityWithEntities), [], [], t)"

definition handingOffDialog :: "(string, nat) skill_dialog" where
  "handingOffDialog =
     calendarDialog\<lparr>skillTransport := parkedTransport\<lparr>tForwardToSkill := handingOffForward\<rparr>\<rparr>"

definition skillFallbackRequest :: "string activity" where
  "skillFallbackRequest =
     \<lparr>atype = ''event'', name = Some fallbackEventName, atext = None, speak = None,
      recipient = Some ''bot'', semanticAction = None\<rparr>"

definition fallbackRaisingForward ::
  "string activity \<Rightarrow> nat
     \<Rightarrow> (error + string activity option) \<times> string activity list \<times> string activity list \<times> nat" where
  "fallbackRaisingForward a t = (Inr None, [], [skillFallbackRequest], t)"

definition fallbackRaisingDialog :: "(string, nat) skill_dialog" where
  "fallbackRaisingDialog =
     calendarDialog\<lparr>skillTransport := parkedTransport\<lparr>tForwardToSkill := fallbackRaisingForward\<rparr>\<rparr>"

definition failingSend :: "string activity \<Rightarrow> error + string activity option" where
  "failingSend a = Inl (Error ''socket closed'')"

definition failingNetwork :: "string network" where
  "failingNetwork = \<lparr>getToken = Inr ''token'', connectAsync = Inr (), sendAsync = failingSend\<rparr>"

definition webSocketDialog :: "(string, string web_socket_transport) skill_dialog" where
  "webSocketDialog =
     \<lparr>skillManifest = calendarManifest,
      skillTransport = webSocketTransport replyTo failingNetwork calendarManifest,
      skillIntentRecognizer = None, authDialog = None\<rparr>"

definition webSocketContext :: "(string, string web_socket_transport) dialog_context" where
  "webSocketContext =
     \<lparr>turnActivity = userMessage, traces = [], prompts = [], sentToSkill = [],
      queuedResponses = [],
      transport = \<lparr>streamingTransportClient = None, connected = False, handoffActivity = None\<rparr>,
      activeDialog = None, stepOptions = None, ended = False, tornDown = False\<rparr>"

definition titleSlot :: slot where
  "titleSlot = \<lparr>slot_name = ''title'', slot_type = ''string''\<rparr>"

definition updateEvent :: action where
  "updateEvent = \<lparr>action_id = ''updateEvent'', slots = [dateSlot, titleSlot]\<rparr>"

definition twoActions :: "action list" where
  "twoActions = [createEvent, updateEvent]"

definition twoActionsDialog :: "(string, nat) skill_dialog" where
  "twoActionsDialog = calendarDialog\<lparr>skillManifest := calendarManifest\<lparr>actions := twoActions\<rparr>\<rparr>"

definition repeatedSlotAction :: action where
  "repeatedSlotAction = \<lparr>action_id = ''moveEvent'', slots = [dateSlot, dateSlot]\<rparr>"

definition repeatedSlotDialog :: "(string, nat) skill_dialog" where
  "repeatedSlotDialog =
     calendarDialog\<lparr>skillManifest := calendarManifest\<lparr>actions := [repeatedSlotAction]\<rparr>\<rparr>"

section \<open>Auxiliary facts\<close>

lemmas fixture_defs =
  dateSlot_def createEvent_def calendarManifest_def calendarContext_def userMessage_def
  blankSemanticAction_def taggedMessage_def replyTo_def parkedForward_def countedCancel_def
  keepState_def parkedTransport_def calendarDialog_def idleContext_def
  handoffActivityWithEntities_def handingOffForward_def handingOffDialog_def
  skillFallbackRequest_def fallbackRaisingForward_def fallbackRaisingDialog_def
  failingSend_def failingNetwork_def webSocketDialog_def webSocketContext_def
  titleSlot_def updateEvent_def twoActions_def twoActionsDialog_def
  repeatedSlotAction_def repeatedSlotDialog_def

subsection \<open>replace\<close>

lemma replace_prefix: "replace (p @ r) p rep = rep @ r"
proof (cases "p @ r")
  case Nil
  then show ?thesis by simp
next
  case (Cons c cs)
  have "prefix p (c # cs)" using Cons[symmetric] by simp
  moreover have "drop (length p) (c # cs) = r" using Cons[symmetric] by simp
  ultimately show ?thesis by (simp add: Cons)
qed

subsection \<open>The fold of matchSkillContextToSlots\<close>

lemma matchSlot_step:
  "matchSlot ctx (m, t) s =
     (case ctx (slot_name s) of None \<Rightarrow> (m, t)
      | Some v \<Rightarrow> (m(slot_name s \<mapsto> v), t @ [matchedTrace (slot_name s)]))"
  by (simp add: matchSlot_def getObj_def setObj_def split: option.splits)

lemma foldl_matchSlot_fst:
  "fst (foldl (matchSlot ctx) (m, t) S) k =
     (if k \<in> slot_name ` set S then (case ctx k of Some v \<Rightarrow> Some v | None \<Rightarrow> m k) else m k)"
proof (induction S arbitrary: m t)
  case Nil
  then show ?case by simp
next
  case (Cons s S)
  show ?case
    by (cases "ctx (slot_name s)") (auto simp: matchSlot_step Cons.IH split: option.splits)
qed

lemma foldl_matchSlot_snd:
  "snd (foldl (matchSlot ctx) (m, t) S) =
     t @ map matchedTrace (filter (\<lambda>n. ctx n \<noteq> None) (map slot_name S))"
proof (induction S arbitrary: m t)
  case Nil
  then show ?case by simp
next
  case (Cons s S)
  show ?case
    by (cases "ctx (slot_name s)") (auto simp: matchSlot_step Cons.IH)
qed

subsection \<open>The reduce over the actions\<close>





subsection \<open>The activities handed to the transport\<close>

text \<open>
  The comparison that guards the fallback block is never true of a popped
  activity, so the block never runs.
\<close>

lemma handleFallbackEvent_passes_on:
  "handleFallbackEvent D lastEvent s = (lastEvent, None)"
  by (simp add: handleFallbackEvent_def)

text \<open>
  No fallback handler is passed, so the fallback requests that a skill raises
  leave the dialog as it is.
\<close>

lemma fallback_requests_reach_nothing:
  "deliverFallbackRequests fallbackHandlerPassed raised s = s"
  by (simp add: deliverFallbackRequests_def fallbackHandlerPassed_def)

lemma catchAndEnd_sent:
  "catchAndEnd x = Some (r, s') \<Longrightarrow> \<exists>r0 s0. x = Some (r0, s0) \<and> sentToSkill s' = sentToSkill s0"
  by (auto simp: catchAndEnd_def dcEndDialog_def split: option.splits sum.splits prod.splits)

text \<open>
  A call of \<open>forwardToSkill\<close> that returns has handed its activity to the
  transport first; whatever else was sent comes after.
\<close>

lemma sent_grows:
  "(\<forall>a s r s'. forwardToSkill n D a s = Some (r, s')
       \<longrightarrow> (\<exists>rest. sentToSkill s' = sentToSkill s @ a # rest))
   \<and> (\<forall>dr s r s'. drainQueuedResponses n D dr s = Some (r, s')
       \<longrightarrow> (\<exists>rest. sentToSkill s' = sentToSkill s @ rest))"
proof (induction n)
  case 0
  then show ?case by simp
next
  case (Suc n)
  have ihF: "\<And>a s r s'. forwardToSkill n D a s = Some (r, s')
               \<Longrightarrow> \<exists>rest. sentToSkill s' = sentToSkill s @ a # rest"
    and ihD: "\<And>dr s r s'. drainQueuedResponses n D dr s = Some (r, s')
               \<Longrightarrow> \<exists>rest. sentToSkill s' = sentToSkill s @ rest"
    using Suc.IH by blast+
  have F: "\<exists>rest. sentToSkill s' = sentToSkill s @ a # rest"
    if h: "forwardToSkill (Suc n) D a s = Some (r, s')" for a s r s'
  proof -
    obtain res pushed raised t
      where tr: "tForwardToSkill (skillTransport D) a (transport s) = (res, pushed, raised, t)"
      by (cases "tForwardToSkill (skillTransport D) a (transport s)") auto
    define s1 where "s1 = deliverFallbackRequests fallbackHandlerPassed raised
                            (s\<lparr>sentToSkill := sentToSkill s @ [a],
                               queuedResponses := queuedResponses s @ pushed, transport := t\<rparr>)"
    have s1s: "sentToSkill s1 = sentToSkill s @ [a]"
      by (simp add: s1_def fallback_requests_reach_nothing)
    show ?thesis
    proof (cases res)
      case (Inl e)
      then have "s' = snd (dcEndDialog Undefined s1)"
        using h tr by (simp add: s1_def catchAndEnd_def Let_def)
      then show ?thesis using s1s by (simp add: dcEndDialog_def)
    next
      case (Inr ho)
      show ?thesis
      proof (cases ho)
        case None
        then have "catchAndEnd (drainQueuedResponses n D \<lparr>status = Waiting, result = Undefined\<rparr> s1)
                     = Some (r, s')"
          using h tr Inr by (simp add: s1_def Let_def)
        then obtain r0 s0
          where d: "drainQueuedResponses n D \<lparr>status = Waiting, result = Undefined\<rparr> s1 = Some (r0, s0)"
            and e: "sentToSkill s' = sentToSkill s0"
          using catchAndEnd_sent by blast
        from ihD[OF d] e s1s show ?thesis by auto
      next
        case (Some handoff)
        then have "sentToSkill s' = sentToSkill s1"
          using h tr Inr by (auto simp: s1_def Let_def dcEndDialog_def sendTrace_def)
        then show ?thesis using s1s by simp
      qed
    qed
  qed
  have Dr: "\<exists>rest. sentToSkill s' = sentToSkill s @ rest"
    if h: "drainQueuedResponses (Suc n) D dr s = Some (r, s')" for dr s r s'
  proof (cases "queuedResponses s = []")
    case True
    then show ?thesis using h by simp
  next
    case False
    define s1 where "s1 = s\<lparr>queuedResponses := butlast (queuedResponses s)\<rparr>"
    have s1s: "sentToSkill s1 = sentToSkill s" by (simp add: s1_def)
    from h False obtain r1 s2
      where f: "forwardToSkill n D (last (queuedResponses s)) s1 = Some (r1, s2)"
        and rest: "(case r1 of Inl e \<Rightarrow> Some (Inl e, s2)
                    | Inr dr' \<Rightarrow> drainQueuedResponses n D dr' s2) = Some (r, s')"
      by (auto simp: s1_def Let_def handleFallbackEvent_passes_on split: option.splits sum.splits)
    from ihF[OF f] s1s obtain rest1
      where a: "sentToSkill s2 = sentToSkill s @ last (queuedResponses s) # rest1" by auto
    show ?thesis
    proof (cases r1)
      case (Inl e)
      then show ?thesis using rest a by auto
    next
      case (Inr dr')
      then have "drainQueuedResponses n D dr' s2 = Some (r, s')" using rest by simp
      from ihD[OF this] a show ?thesis by auto
    qed
  qed
  from F Dr show ?case by blast
qed

lemma forwardToSkill_sent:
  "forwardToSkill n D a s = Some (r, s') \<Longrightarrow> \<exists>rest. sentToSkill s' = sentToSkill s @ a # rest"
  using sent_grows by blast

text \<open>
  The confirm flow is begun in one place, the block that the comparison guards.
  So no call of \<open>forwardToSkill\<close> prompts for a skill switch or stores confirm
  options, and none leaves the confirm prompt as the active dialog.
\<close>

lemma catchAndEnd_confirm:
  "catchAndEnd x = Some (r, s') \<Longrightarrow>
   \<exists>r0 s0. x = Some (r0, s0) \<and> prompts s' = prompts s0 \<and> stepOptions s' = stepOptions s0
     \<and> (activeDialog s' = activeDialog s0 \<or> activeDialog s' = None)"
  by (auto simp: catchAndEnd_def dcEndDialog_def split: option.splits sum.splits prod.splits)

lemma confirm_flow_never_begins:
  "(\<forall>a s r s'. forwardToSkill n D a s = Some (r, s')
       \<longrightarrow> prompts s' = prompts s \<and> stepOptions s' = stepOptions s
           \<and> (activeDialog s' = activeDialog s \<or> activeDialog s' = None))
   \<and> (\<forall>dr s r s'. drainQueuedResponses n D dr s = Some (r, s')
       \<longrightarrow> prompts s' = prompts s \<and> stepOptions s' = stepOptions s
           \<and> (activeDialog s' = activeDialog s \<or> activeDialog s' = None))"
proof (induction n)
  case 0
  then show ?case by simp
next
  case (Suc n)
  note ihF = Suc.IH[THEN conjunct1, rule_format]
  note ihD = Suc.IH[THEN conjunct2, rule_format]
  have F: "prompts s' = prompts s \<and> stepOptions s' = stepOptions s
             \<and> (activeDialog s' = activeDialog s \<or> activeDialog s' = None)"
    if h: "forwardToSkill (Suc n) D a s = Some (r, s')" for a s r s'
  proof -
    obtain res pushed raised t
      where tr: "tForwardToSkill (skillTransport D) a (transport s) = (res, pushed, raised, t)"
      by (cases "tForwardToSkill (skillTransport D) a (transport s)") auto
    define s1 where "s1 = s\<lparr>sentToSkill := sentToSkill s @ [a],
                            queuedResponses := queuedResponses s @ pushed, transport := t\<rparr>"
    have s1s: "prompts s1 = prompts s" "stepOptions s1 = stepOptions s" "activeDialog s1 = activeDialog s"
      by (simp_all add: s1_def)
    show ?thesis
    proof (cases res)
      case (Inl e)
      then have "s' = snd (dcEndDialog Undefined s1)"
        using h tr by (simp add: s1_def catchAndEnd_def Let_def fallback_requests_reach_nothing)
      then show ?thesis using s1s by (simp add: dcEndDialog_def)
    next
      case (Inr ho)
      show ?thesis
      proof (cases ho)
        case None
        then have "catchAndEnd (drainQueuedResponses n D \<lparr>status = Waiting, result = Undefined\<rparr> s1)
                     = Some (r, s')"
          using h tr Inr by (simp add: s1_def Let_def fallback_requests_reach_nothing)
        then obtain r0 s0
          where d: "drainQueuedResponses n D \<lparr>status = Waiting, result = Undefined\<rparr> s1 = Some (r0, s0)"
            and e: "prompts s' = prompts s0" "stepOptions s' = stepOptions s0"
                   "activeDialog s' = activeDialog s0 \<or> activeDialog s' = None"
          using catchAndEnd_confirm by blast
        from ihD[OF d] e s1s show ?thesis by auto
      next
        case (Some handoff)
        then have "s' = snd (dcEndDialog (handoffResult handoff)
                               (sendTrace (''<--Ending the skill conversation with the ''
                                             @ manifest_name (skillManifest D)
                                             @ '' Skill and handing off to Parent Bot.'') s1))"
          using h tr Inr
          by (auto simp: s1_def Let_def fallback_requests_reach_nothing split: prod.splits)
        then show ?thesis using s1s by (simp add: dcEndDialog_def sendTrace_def)
      qed
    qed
  qed
  have Dr: "prompts s' = prompts s \<and> stepOptions s' = stepOptions s
             \<and> (activeDialog s' = activeDialog s \<or> activeDialog s' = None)"
    if h: "drainQueuedResponses (Suc n) D dr s = Some (r, s')" for dr s r s'
  proof (cases "queuedResponses s = []")
    case True
    then show ?thesis using h by simp
  next
    case False
    define s1 where "s1 = s\<lparr>queuedResponses := butlast (queuedResponses s)\<rparr>"
    have s1s: "prompts s1 = prompts s" "stepOptions s1 = stepOptions s" "activeDialog s1 = activeDialog s"
      by (simp_all add: s1_def)
    from h False obtain r1 s2
      where f: "forwardToSkill n D (last (queuedResponses s)) s1 = Some (r1, s2)"
        and rest: "(case r1 of Inl e \<Rightarrow> Some (Inl e, s2)
                    | Inr dr' \<Rightarrow> drainQueuedResponses n D dr' s2) = Some (r, s')"
      by (auto simp: s1_def Let_def handleFallbackEvent_passes_on split: option.splits sum.splits)
    from ihF[OF f] s1s
    have a: "prompts s2 = prompts s" "stepOptions s2 = stepOptions s"
            "activeDialog s2 = activeDialog s \<or> activeDialog s2 = None"
      by auto
    show ?thesis
    proof (cases r1)
      case (Inl e)
      then show ?thesis using rest a by auto
    next
      case (Inr dr')
      then have "drainQueuedResponses n D dr' s2 = Some (r, s')" using rest by simp
      from ihD[OF this] a show ?thesis by auto
    qed
  qed
  from F Dr show ?case by blast
qed

section \<open>The claims\<close>

subsection \<open>Endpoint normalization\<close>

text \<open>
  Claim C9. Endpoint normalization maps a URL that begins with \<open>http://\<close> to the
  same URL beginning with \<open>ws://\<close>, a URL that begins with \<open>https://\<close> to the same
  URL beginning with \<open>wss://\<close>, and returns every other non-empty URL unchanged.
\<close>

theorem ensureWebSocketUrl_normalizes:
  "ensureWebSocketUrl (''http://'' @ rest) = Inr (''ws://'' @ rest)
   \<and> ensureWebSocketUrl (''https://'' @ rest) = Inr (''wss://'' @ rest)
   \<and> (url \<noteq> [] \<and> \<not> prefix ''http://'' url \<and> \<not> prefix ''https://'' url
        \<longrightarrow> ensureWebSocketUrl url = Inr url)"
proof -
  have a: "ensureWebSocketUrl (''http://'' @ rest) = Inr (''ws://'' @ rest)"
    unfolding ensureWebSocketUrl_def httpPrefix_def wsPrefix_def
    using replace_prefix[of "''http://''" rest "''ws://''"] by simp
  have b: "ensureWebSocketUrl (''https://'' @ rest) = Inr (''wss://'' @ rest)"
    unfolding ensureWebSocketUrl_def httpPrefix_def httpsPrefix_def wssPrefix_def
    using replace_prefix[of "''https://''" rest "''wss://''"] by simp
  have c: "url \<noteq> [] \<and> \<not> prefix ''http://'' url \<and> \<not> prefix ''https://'' url
             \<longrightarrow> ensureWebSocketUrl url = Inr url"
    by (simp add: ensureWebSocketUrl_def httpPrefix_def httpsPrefix_def)
  from a b c show ?thesis by blast
qed

text \<open>
  Claim C9 at \<open>http://host/x\<close>, \<open>https://host/x\<close> and \<open>ftp://host/x\<close>.
\<close>

theorem ensureWebSocketUrl_normalizes_witness:
  "ensureWebSocketUrl ''http://host/x'' = Inr ''ws://host/x''
   \<and> ensureWebSocketUrl ''https://host/x'' = Inr ''wss://host/x''
   \<and> ''ftp://host/x'' \<noteq> [] \<and> \<not> prefix ''http://'' ''ftp://host/x''
   \<and> \<not> prefix ''https://'' ''ftp://host/x''
   \<and> ensureWebSocketUrl ''ftp://host/x'' = Inr ''ftp://host/x''"
  using ensureWebSocketUrl_normalizes[of "''host/x''" "''ftp://host/x''"] by simp

subsection \<open>Slot matching\<close>

text \<open>
  Claim C6. For every list of declared slots and every SkillContext, the slot set
  that \<open>matchSkillContextToSlots\<close> produces is the SkillContext restricted to the
  declared slot names: a declared name the SkillContext holds is mapped to the
  SkillContext's value, and no other name is present. One trace is sent per
  matched slot, in slot order.
\<close>

theorem matchSkillContextToSlots_exact_subset:
  "fst (matchSkillContextToSlots S skillContext) = skillContext |` (slot_name ` set S)
   \<and> snd (matchSkillContextToSlots S skillContext)
       = map matchedTrace (filter (\<lambda>n. skillContext n \<noteq> None) (map slot_name S))"
proof -
  have "fst (matchSkillContextToSlots S skillContext) k = (skillContext |` (slot_name ` set S)) k" for k
    by (simp add: matchSkillContextToSlots_def foldl_matchSlot_fst restrict_map_def
          split: option.splits)
  then have a: "fst (matchSkillContextToSlots S skillContext) = skillContext |` (slot_name ` set S)"
    by (rule ext)
  have b: "snd (matchSkillContextToSlots S skillContext)
             = map matchedTrace (filter (\<lambda>n. skillContext n \<noteq> None) (map slot_name S))"
    by (simp add: matchSkillContextToSlots_def foldl_matchSlot_snd)
  from a b show ?thesis by blast
qed

text \<open>
  The scenario of the spec: the action \<open>createEvent\<close> declares the slot \<open>date\<close>, the
  SkillContext holds \<open>date\<close> and \<open>unrelated\<close>, and the slot set is \<open>date\<close> alone.
\<close>

lemma calendar_scenario_slots:
  "fst (matchSkillContextToSlots (slots createEvent) calendarContext) = [''date'' \<mapsto> ''tomorrow'']"
  by (simp add: matchSkillContextToSlots_def matchSlot_def getObj_def setObj_def fixture_defs)




subsection \<open>Handoff\<close>

text \<open>
  Claim C3. When the transport yields a handoff activity, \<open>forwardToSkill\<close> ends
  the invocation: the turn result is complete, the inner dialog is ended, and the
  result is the entities of the handoff's semantic action, or nothing when the
  handoff has no semantic action.
\<close>

theorem forwardToSkill_handoff_ends_with_entities:
  "tForwardToSkill (skillTransport D) a (transport s) = (Inr (Some handoff), pushed, raised, t) \<Longrightarrow>
   \<exists>s'. forwardToSkill (Suc n) D a s =
           Some (Inr \<lparr>status = Complete,
                      result = (case semanticAction handoff of
                                  Some sa \<Rightarrow> Entities (entities sa)
                                | None \<Rightarrow> Undefined)\<rparr>, s')
         \<and> ended s' \<and> activeDialog s' = None"
  by (simp add: dcEndDialog_def handoffResult_def sendTrace_def Let_def
        fallback_requests_reach_nothing)

text \<open>
  Claim C3 at a skill that hands off with the entity \<open>date\<close>.
\<close>

theorem forwardToSkill_handoff_ends_with_entities_witness:
  "tForwardToSkill (skillTransport handingOffDialog) userMessage (transport idleContext)
     = (Inr (Some handoffActivityWithEntities), [], [], 0)
   \<and> (\<exists>s'. forwardToSkill (Suc 0) handingOffDialog userMessage idleContext =
              Some (Inr \<lparr>status = Complete, result = Entities [''date'' \<mapsto> ''tomorrow'']\<rparr>, s')
            \<and> ended s' \<and> activeDialog s' = None)"
proof -
  have h: "tForwardToSkill (skillTransport handingOffDialog) userMessage (transport idleContext)
             = (Inr (Some handoffActivityWithEntities), [], [], 0)"
    by (simp add: fixture_defs)
  have e: "semanticAction handoffActivityWithEntities
             = Some \<lparr>sa_id = ''createEvent'', entities = [''date'' \<mapsto> ''tomorrow''], state = ''done''\<rparr>"
    by (simp add: handoffActivityWithEntities_def)
  from forwardToSkill_handoff_ends_with_entities[OF h, of 0] h e show ?thesis
    by simp
qed

subsection \<open>Beginning an invocation\<close>

text \<open>
  Whatever the action and the SkillContext, the payload that \<open>onBeginDialog\<close>
  builds has no entities.
\<close>

lemma buildSemanticAction_entities_empty:
  "buildSemanticAction m actionName skillContext = Inr (sa, matched, tr) \<Longrightarrow> entities sa = Map.empty"
  by (auto simp: buildSemanticAction_def Let_def split: if_splits option.splits prod.splits)

text \<open>
  Inside the guard, an action id that the manifest does not have makes
  \<open>onBeginDialog\<close> throw before anything is traced or sent.
\<close>

lemma onBeginDialog_unknown_action_throws:
  "semanticAction (turnActivity s) \<noteq> None \<Longrightarrow> actionName \<noteq> [] \<Longrightarrow>
   find (\<lambda>item. action_id item = actionName) (actions (skillManifest D)) = None \<Longrightarrow>
   onBeginDialog n D (Some actionName) skillContext s
     = Some (Inl (actionNotFound actionName (manifest_id (skillManifest D))), s)"
  by (simp add: onBeginDialog_def buildSemanticAction_def Let_def)

text \<open>
  Claim C10. When the inbound activity has no semantic action, \<open>onBeginDialog\<close>
  looks no action up, matches no slot and throws no error of its own, whatever
  the requested action is: it sends the hand-off trace and forwards the activity
  as it came, without a semantic-action payload, so that its outcome is the
  outcome of that one \<open>forwardToSkill\<close> call; and when it returns, the first
  activity handed to the transport is the unchanged inbound activity.
\<close>

theorem onBeginDialog_without_semanticAction_forwards_unchanged:
  "semanticAction (turnActivity s) = None \<Longrightarrow>
   onBeginDialog n D options skillContext s =
     (case forwardToSkill n D (turnActivity s)
             (sendTrace (''-->Handing off to the '' @ manifest_name (skillManifest D) @ '' skill.'') s) of
        None \<Rightarrow> None
      | Some (Inl e, s3) \<Rightarrow> Some (Inl e, s3)
      | Some (Inr dialogResult, s3) \<Rightarrow>
          Some (Inr dialogResult, s3\<lparr>transport := tDisconnect (skillTransport D) (transport s3)\<rparr>))
   \<and> (\<forall>r s'. onBeginDialog n D options skillContext s = Some (r, s')
         \<longrightarrow> (\<exists>rest. sentToSkill s' = sentToSkill s @ turnActivity s # rest))"
proof -
  assume none: "semanticAction (turnActivity s) = None"
  define s2 where "s2 = sendTrace (''-->Handing off to the '' @ manifest_name (skillManifest D) @ '' skill.'') s"
  have t: "turnActivity s2 = turnActivity s" and q: "sentToSkill s2 = sentToSkill s"
    by (simp_all add: s2_def sendTrace_def)
  have eq: "onBeginDialog n D options skillContext s =
     (case forwardToSkill n D (turnActivity s) s2 of
        None \<Rightarrow> None
      | Some (Inl e, s3) \<Rightarrow> Some (Inl e, s3)
      | Some (Inr dialogResult, s3) \<Rightarrow>
          Some (Inr dialogResult, s3\<lparr>transport := tDisconnect (skillTransport D) (transport s3)\<rparr>))"
    using none t by (simp add: onBeginDialog_def Let_def s2_def)
  have sent: "\<exists>rest. sentToSkill s' = sentToSkill s @ turnActivity s # rest"
    if h: "onBeginDialog n D options skillContext s = Some (r, s')" for r s'
  proof -
    from h eq obtain r3 s3 where f: "forwardToSkill n D (turnActivity s) s2 = Some (r3, s3)"
      and e: "sentToSkill s' = sentToSkill s3"
      by (auto split: option.splits sum.splits prod.splits)
    from forwardToSkill_sent[OF f] q e show ?thesis by simp
  qed
  from eq sent show ?thesis unfolding s2_def by blast
qed

text \<open>
  Claim C10 at a message without semantic action and the action \<open>deleteEvent\<close>,
  which the manifest does not have.
\<close>

theorem onBeginDialog_without_semanticAction_forwards_unchanged_witness:
  "semanticAction (turnActivity idleContext) = None
   \<and> onBeginDialog (Suc (Suc 0)) calendarDialog (Some ''deleteEvent'') calendarContext idleContext
       = Some (Inr \<lparr>status = Waiting, result = Undefined\<rparr>,
               idleContext\<lparr>traces := [''-->Handing off to the Calendar skill.''],
                            sentToSkill := [userMessage]\<rparr>)
   \<and> (\<exists>rest. sentToSkill (idleContext\<lparr>traces := [''-->Handing off to the Calendar skill.''],
                                         sentToSkill := [userMessage]\<rparr>)
               = sentToSkill idleContext @ turnActivity idleContext # rest)"
proof -
  have h: "semanticAction (turnActivity idleContext) = None"
    by (simp add: idleContext_def userMessage_def)
  have ev: "onBeginDialog (Suc (Suc 0)) calendarDialog (Some ''deleteEvent'') calendarContext idleContext
       = Some (Inr \<lparr>status = Waiting, result = Undefined\<rparr>,
               idleContext\<lparr>traces := [''-->Handing off to the Calendar skill.''],
                            sentToSkill := [userMessage]\<rparr>)"
    by (simp add: onBeginDialog_def calendarDialog_def idleContext_def userMessage_def
          calendarManifest_def parkedTransport_def parkedForward_def keepState_def sendTrace_def
          catchAndEnd_def fallback_requests_reach_nothing Let_def)
  from onBeginDialog_without_semanticAction_forwards_unchanged
         [OF h, of "Suc (Suc 0)" calendarDialog "Some ''deleteEvent''" calendarContext]
       h ev
  show ?thesis by blast
qed

text \<open>
  Claim C5, evaluated: the action \<open>bogus\<close> is not in the manifest and the lookup
  would throw, yet for a message without semantic action \<open>onBeginDialog\<close> throws
  nothing and hands the message to the transport.
\<close>

theorem begin_unknown_action_without_semanticAction_forwards:
  "buildSemanticAction calendarManifest ''bogus'' calendarContext
     = Inl (actionNotFound ''bogus'' ''calendar'')
   \<and> onBeginDialog (Suc (Suc 0)) calendarDialog (Some ''bogus'') calendarContext idleContext
       = Some (Inr \<lparr>status = Waiting, result = Undefined\<rparr>,
               idleContext\<lparr>traces := [''-->Handing off to the Calendar skill.''],
                            sentToSkill := [userMessage]\<rparr>)"
proof -
  have a: "buildSemanticAction calendarManifest ''bogus'' calendarContext
             = Inl (actionNotFound ''bogus'' ''calendar'')"
    by (simp add: buildSemanticAction_def calendarManifest_def createEvent_def)
  have b: "onBeginDialog (Suc (Suc 0)) calendarDialog (Some ''bogus'') calendarContext idleContext
       = Some (Inr \<lparr>status = Waiting, result = Undefined\<rparr>,
               idleContext\<lparr>traces := [''-->Handing off to the Calendar skill.''],
                            sentToSkill := [userMessage]\<rparr>)"
    by (simp add: onBeginDialog_def calendarDialog_def idleContext_def userMessage_def
          calendarManifest_def parkedTransport_def parkedForward_def keepState_def sendTrace_def
          catchAndEnd_def fallback_requests_reach_nothing Let_def)
  from a b show ?thesis by blast
qed

text \<open>
  Claim C8, evaluated on the scenario of the spec: the slot \<open>date\<close> is matched, and
  the payload of the forwarded activity has the requested id and the state
  \<open>skill-start\<close> but no entities.
\<close>

theorem begin_payload_entities_stay_empty:
  "fst (matchSkillContextToSlots (slots createEvent) calendarContext) = [''date'' \<mapsto> ''tomorrow'']
   \<and> onBeginDialog (Suc (Suc 0)) calendarDialog (Some ''createEvent'') calendarContext
         (idleContext\<lparr>turnActivity := taggedMessage\<rparr>)
       = Some (Inr \<lparr>status = Waiting, result = Undefined\<rparr>,
               idleContext\<lparr>turnActivity := taggedMessage\<lparr>semanticAction :=
                              Some \<lparr>sa_id = ''createEvent'', entities = Map.empty, state = skillStart\<rparr>\<rparr>,
                            traces := [matchedTrace ''date'', ''-->Handing off to the Calendar skill.''],
                            sentToSkill := [taggedMessage\<lparr>semanticAction :=
                              Some \<lparr>sa_id = ''createEvent'', entities = Map.empty, state = skillStart\<rparr>\<rparr>]\<rparr>)"
proof -
  have a: "fst (matchSkillContextToSlots (slots createEvent) calendarContext) = [''date'' \<mapsto> ''tomorrow'']"
    by (simp add: matchSkillContextToSlots_def matchSlot_def getObj_def setObj_def fixture_defs)
  have b: "onBeginDialog (Suc (Suc 0)) calendarDialog (Some ''createEvent'') calendarContext
         (idleContext\<lparr>turnActivity := taggedMessage\<rparr>)
       = Some (Inr \<lparr>status = Waiting, result = Undefined\<rparr>,
               idleContext\<lparr>turnActivity := taggedMessage\<lparr>semanticAction :=
                              Some \<lparr>sa_id = ''createEvent'', entities = Map.empty, state = skillStart\<rparr>\<rparr>,
                            traces := [matchedTrace ''date'', ''-->Handing off to the Calendar skill.''],
                            sentToSkill := [taggedMessage\<lparr>semanticAction :=
                              Some \<lparr>sa_id = ''createEvent'', entities = Map.empty, state = skillStart\<rparr>\<rparr>]\<rparr>)"
    by (simp add: onBeginDialog_def buildSemanticAction_def matchSkillContextToSlots_def
          matchSlot_def getObj_def setObj_def fixture_defs sendTrace_def catchAndEnd_def
          fallback_requests_reach_nothing Let_def)
  from a b show ?thesis by blast
qed

subsection \<open>The fallback event\<close>

text \<open>
  Were the fallback event queued, as \<open>getFallbackCallback\<close> would queue it, the
  loop would send it on under the name it has: the comparison of the popped
  activity with the event name never holds.
\<close>

lemma queued_fallback_event_keeps_its_name:
  "forwardToSkill (Suc (Suc (Suc (Suc 0)))) calendarDialog userMessage
      (getFallbackCallback replyTo userMessage idleContext)
     = Some (Inr \<lparr>status = Waiting, result = Undefined\<rparr>,
             idleContext\<lparr>traces := [''<--Received a fallback request from a skill''],
                          sentToSkill := [userMessage,
                            (replyTo userMessage)\<lparr>atype := Event, name := Some fallbackEventName\<rparr>]\<rparr>)"
  by (simp add: getFallbackCallback_def handleFallbackEvent_def fixture_defs sendTrace_def
        catchAndEnd_def fallback_requests_reach_nothing Let_def)

text \<open>
  Claim C2, evaluated: no recognizer is configured, the skill raises a fallback
  request during the call and does not hand off. The turn waits, and that is
  all: nothing is queued, nothing is traced, and the only activity sent to the
  skill is the one forwarded, so no fallback-handled event is sent.
\<close>

theorem raised_fallback_request_is_not_resent:
  "tForwardToSkill (skillTransport fallbackRaisingDialog) userMessage (transport idleContext)
     = (Inr None, [], [skillFallbackRequest], 0)
   \<and> skillIntentRecognizer fallbackRaisingDialog = None
   \<and> forwardToSkill (Suc (Suc 0)) fallbackRaisingDialog userMessage idleContext
       = Some (Inr \<lparr>status = Waiting, result = Undefined\<rparr>,
               idleContext\<lparr>sentToSkill := [userMessage]\<rparr>)
   \<and> queuedResponses (idleContext\<lparr>sentToSkill := [userMessage]\<rparr>) = []"
proof -
  have a: "tForwardToSkill (skillTransport fallbackRaisingDialog) userMessage (transport idleContext)
             = (Inr None, [], [skillFallbackRequest], 0)"
    by (simp add: fixture_defs)
  have b: "skillIntentRecognizer fallbackRaisingDialog = None"
    by (simp add: fixture_defs)
  have c: "forwardToSkill (Suc (Suc 0)) fallbackRaisingDialog userMessage idleContext
       = Some (Inr \<lparr>status = Waiting, result = Undefined\<rparr>,
               idleContext\<lparr>sentToSkill := [userMessage]\<rparr>)"
    by (simp add: fixture_defs catchAndEnd_def fallback_requests_reach_nothing Let_def)
  have d: "queuedResponses (idleContext\<lparr>sentToSkill := [userMessage]\<rparr>) = []"
    by (simp add: idleContext_def)
  from a b c d show ?thesis by blast
qed

subsection \<open>Ending an invocation\<close>

text \<open>
  Claim C4 fails as stated: on the web socket transport with a failing send,
  \<open>cancelRemoteDialogs\<close> throws, and \<open>endDialog\<close> with reason \<open>cancelCalled\<close> throws
  the same error and does not tear the invocation down.
\<close>

theorem endDialog_cancel_failure_counterexample:
  "fst (tCancelRemoteDialogs (skillTransport webSocketDialog) (turnActivity webSocketContext)
          (transport webSocketContext)) = Inl (Error ''Callback failed'')
   \<and> fst (endDialog webSocketDialog cancelCalled webSocketContext) = Inl (Error ''Callback failed'')
   \<and> \<not> tornDown (snd (endDialog webSocketDialog cancelCalled webSocketContext))"
proof -
  have a: "tCancelRemoteDialogs (skillTransport webSocketDialog) (turnActivity webSocketContext)
             (transport webSocketContext)
           = (Inl (Error ''Callback failed''),
              \<lparr>streamingTransportClient = Some (Created ''ws://host/x''), connected = True,
               handoffActivity = None\<rparr>)"
    by (simp add: webSocketTransport_def ws_cancelRemoteDialogs_def ws_forwardToSkill_def
          establishClient_def ensureWebSocketUrl_def sendToSkill_def httpPrefix_def wsPrefix_def
          fixture_defs Let_def)
  show ?thesis
    by (simp add: endDialog_def a) (simp add: webSocketContext_def)
qed

text \<open>
  Claim C4 as amended. \<open>endDialog\<close> calls \<open>cancelRemoteDialogs\<close> exactly when the
  reason is \<open>cancelCalled\<close>, and then it completes exactly when that call
  completes: an error thrown by \<open>cancelRemoteDialogs\<close> leaves \<open>endDialog\<close> as it
  is, before the invocation is torn down. For any other reason \<open>endDialog\<close>
  makes no cancel call, the transport is as it was, and \<open>endDialog\<close> completes.
  Whenever it completes the invocation is torn down, and nothing else of the
  dialog's state changes.
\<close>

theorem endDialog_completes_exactly_when_cancel_completes:
  "fst (endDialog D reason s) =
     (if reason = cancelCalled
      then fst (tCancelRemoteDialogs (skillTransport D) (turnActivity s) (transport s))
      else Inr ())
   \<and> tornDown (snd (endDialog D reason s))
       = (if fst (endDialog D reason s) = Inr () then True else tornDown s)
   \<and> transport (snd (endDialog D reason s)) =
       (if reason = cancelCalled
        then snd (tCancelRemoteDialogs (skillTransport D) (turnActivity s) (transport s))
        else transport s)
   \<and> snd (endDialog D reason s) =
       (if fst (endDialog D reason s) = Inr ()
        then s\<lparr>transport := transport (snd (endDialog D reason s)), activeDialog := None, tornDown := True\<rparr>
        else s\<lparr>transport := transport (snd (endDialog D reason s))\<rparr>)"
proof (cases "reason = cancelCalled")
  case False
  then show ?thesis by (simp add: endDialog_def)
next
  case True
  obtain r t where c: "tCancelRemoteDialogs (skillTransport D) (turnActivity s) (transport s) = (r, t)"
    by (cases "tCancelRemoteDialogs (skillTransport D) (turnActivity s) (transport s)") auto
  show ?thesis
  proof (cases r)
    case (Inl e)
    then show ?thesis using True c by (simp add: endDialog_def)
  next
    case (Inr u)
    then show ?thesis using True c by (simp add: endDialog_def)
  qed
qed

end
